theory Spec2Isabelle
  imports Main "HOL-Library.Sublist"
begin

section \<open>Diagnostic capture and panic logging of \<^verbatim>\<open>commands/commands.go\<close>\<close>

text \<open>
  The file \<^verbatim>\<open>commands.go\<close> prints through two \<^verbatim>\<open>io.MultiWriter\<close>s that share one
  \<^verbatim>\<open>bytes.Buffer\<close>, classifies errors, and writes a panic log. It is modelled by explicit
  state passing: every function takes the process state (a \<open>world\<close>) and returns the
  new one. Everything the file reads from other packages (\<^verbatim>\<open>errutil\<close>, \<^verbatim>\<open>config\<close>,
  \<^verbatim>\<open>git\<close>, \<^verbatim>\<open>lfs\<close>) or from the operating system is a field of the environment
  record \<open>env\<close>, so every theorem holds for all of their possible results.
\<close>

subsection \<open>Error values\<close>

text \<open>
  A non-nil Go \<^verbatim>\<open>error\<close>. \<open>PlainError msg\<close> has only \<^verbatim>\<open>Error()\<close>. \<open>StackError msg ctx inner stack\<close>
  also implements the interface \<^verbatim>\<open>ErrorWithStack\<close> (lines 230-234): \<^verbatim>\<open>Context()\<close> is \<open>ctx\<close>,
  listed in the order in which the \<^verbatim>\<open>range\<close> loop of line 215 visits the map,
  \<^verbatim>\<open>InnerError()\<close> is \<open>inner\<close> and \<^verbatim>\<open>Stack()\<close> is \<open>stack\<close>. A possibly nil \<^verbatim>\<open>error\<close> is an
  \<open>error option\<close>, \<open>None\<close> being nil.
\<close>

datatype error =
    PlainError string
  | StackError string "(string \<times> string) list" string string

fun Error_msg :: "error \<Rightarrow> string" where
  "Error_msg (PlainError msg) = msg"
| "Error_msg (StackError msg ctx inner stack) = msg"

subsection \<open>Process state and environment\<close>

datatype outcome = Running | Exited nat | RuntimePanic

text \<open>
  \<open>stdout\<close> and \<open>stderr\<close> are the bytes that the process has passed to \<^verbatim>\<open>os.Stdout\<close> and
  \<^verbatim>\<open>os.Stderr\<close> with its \<^verbatim>\<open>Write\<close> calls so far, in call order, whatever the operating
  system made of each call. \<open>ErrorBuffer\<close> is the contents of the shared buffer of line
  33, \<open>files\<close> the contents of the regular files by path, and \<open>status\<close> whether the
  process still runs. A \<^verbatim>\<open>Write\<close> call on a standard stream can fail or be short; its
  result is given by the environment below and decides what the \<^verbatim>\<open>io.MultiWriter\<close>s of
  lines 34-35 do next. Everywhere else the source ignores the result of
  \<^verbatim>\<open>Fprintln\<close>, \<^verbatim>\<open>Fprintf\<close> and \<^verbatim>\<open>Write\<close>. A \<^verbatim>\<open>bytes.Buffer\<close> takes every write in full.
\<close>

record world =
  stdout :: string
  stderr :: string
  ErrorBuffer :: string
  files :: "string \<rightharpoonup> string"
  status :: outcome

text \<open>
  What the file takes from elsewhere. \<open>Debugging\<close> is the package variable of line 32.
  \<open>VersionDesc\<close> and \<open>LocalLogDir\<close> are the variables of package \<^verbatim>\<open>config\<close>;
  \<open>git_Version\<close> is the result of \<^verbatim>\<open>git.Config.Version()\<close> (\<open>Inl\<close> its error);
  \<open>os_Arg0 # os_ArgsRest\<close> is \<^verbatim>\<open>os.Args\<close>, which starts with the program name;
  \<open>lfs_Environ\<close> is \<^verbatim>\<open>lfs.Environ()\<close>; \<open>errutil_Stack\<close> the bytes of \<^verbatim>\<open>errutil.Stack()\<close>;
  \<open>IsFatalError\<close> and \<open>GetInnerError\<close> are the functions of package \<^verbatim>\<open>errutil\<close>;
  \<open>Sprintf\<close> is \<^verbatim>\<open>fmt.Sprintf\<close> on operands of type \<open>'a\<close>; \<open>time_Now_Format\<close> is
  \<^verbatim>\<open>time.Now().Format("20060102T150405.999999999")\<close>; \<open>filepath_Join\<close> is
  \<^verbatim>\<open>filepath.Join\<close> on two elements; \<open>os_MkdirAll\<close> and \<open>os_Create\<close> give the error of
  the call on a path (\<open>None\<close> when it succeeds). \<open>os_Stdout_Write sofar p\<close> is the result
  \<^verbatim>\<open>(n, err)\<close> of \<^verbatim>\<open>os.Stdout.Write(p)\<close> when the process has already passed \<open>sofar\<close> to
  \<^verbatim>\<open>os.Stdout\<close>, and \<open>os_Stderr_Write\<close> the same for \<^verbatim>\<open>os.Stderr\<close>; as every line
  written is non-empty, \<open>sofar\<close> tells the calls of one run apart, so each call can have
  a result of its own.
\<close>

record 'a env =
  Debugging :: bool
  VersionDesc :: string
  LocalLogDir :: string
  git_Version :: "error + string"
  os_Arg0 :: string
  os_ArgsRest :: "string list"
  lfs_Environ :: "string list"
  errutil_Stack :: string
  IsFatalError :: "error option \<Rightarrow> bool"
  GetInnerError :: "error option \<Rightarrow> error option"
  Sprintf :: "string \<Rightarrow> 'a list \<Rightarrow> string"
  time_Now_Format :: string
  filepath_Join :: "string \<Rightarrow> string \<Rightarrow> string"
  os_MkdirAll :: "string \<Rightarrow> error option"
  os_Create :: "string \<Rightarrow> error option"
  os_Stdout_Write :: "string \<Rightarrow> string \<Rightarrow> nat \<times> error option"
  os_Stderr_Write :: "string \<Rightarrow> string \<Rightarrow> nat \<times> error option"

definition os_Args :: "'a env \<Rightarrow> string list" where
  "os_Args E = os_Arg0 E # os_ArgsRest E"

subsection \<open>Go library functions used by the file\<close>

text \<open>\<^verbatim>\<open>filepath.Base\<close> with the separator \<^verbatim>\<open>/\<close>: the last element of the path, after
  removing trailing separators; \<^verbatim>\<open>.\<close> for the empty path and \<^verbatim>\<open>/\<close> for a path of
  separators only.\<close>

definition filepath_Base :: "string \<Rightarrow> string" where
  "filepath_Base path =
     (if path = [] then ''.''
      else
        (let stripped = rev (dropWhile (\<lambda>c. c = CHR ''/'') (rev path));
             last_elem = rev (takeWhile (\<lambda>c. c \<noteq> CHR ''/'') (rev stripped))
         in if last_elem = [] then ''/'' else last_elem))"

text \<open>\<^verbatim>\<open>strings.Join(elems, sep)\<close>.\<close>

fun strings_Join :: "string list \<Rightarrow> string \<Rightarrow> string" where
  "strings_Join [] sep = []"
| "strings_Join [x] sep = x"
| "strings_Join (x # y # ys) sep = x @ sep @ strings_Join (y # ys) sep"

subsection \<open>Writers\<close>

text \<open>
  \<open>ErrorWriter\<close> and \<open>OutputWriter\<close> (lines 34-35) are \<^verbatim>\<open>io.MultiWriter\<close>s of the real
  stream and \<open>ErrorBuffer\<close>, in this order. \<^verbatim>\<open>Write(p)\<close> of an \<^verbatim>\<open>io.MultiWriter\<close> calls
  \<^verbatim>\<open>Write(p)\<close> on its writers in order and returns at the first one that reports an error
  or writes fewer than \<^verbatim>\<open>len(p)\<close> bytes: \<open>ErrorBuffer\<close> receives \<open>p\<close> only if the real
  stream took all of it without error. The writer of \<^verbatim>\<open>logPanic\<close> is either
  \<^verbatim>\<open>os.Stderr\<close> itself (not the multi-writer) or the log file just created.
\<close>

definition write_ErrorWriter :: "'a env \<Rightarrow> string \<Rightarrow> world \<Rightarrow> world" where
  "write_ErrorWriter E p w =
     (let w1 = w\<lparr>stderr := stderr w @ p\<rparr>
      in case os_Stderr_Write E (stderr w) p of
           (n, err) \<Rightarrow>
             if err \<noteq> None then w1
             else if n \<noteq> length p then w1
             else w1\<lparr>ErrorBuffer := ErrorBuffer w1 @ p\<rparr>)"


datatype writer = Stderr | File string

fun Write :: "writer \<Rightarrow> string \<Rightarrow> world \<Rightarrow> world" where
  "Write Stderr s w = w\<lparr>stderr := stderr w @ s\<rparr>"
| "Write (File p) s w =
     w\<lparr>files := (files w)(p \<mapsto> (case files w p of None \<Rightarrow> s | Some c \<Rightarrow> c @ s))\<rparr>"

text \<open>\<^verbatim>\<open>fmt.Fprintln(w, s)\<close> on one string operand.\<close>

definition Fprintln :: "writer \<Rightarrow> string \<Rightarrow> world \<Rightarrow> world" where
  "Fprintln wr s w = Write wr (s @ ''\<newline>'') w"

text \<open>\<^verbatim>\<open>os.Exit(code)\<close>.\<close>

definition os_Exit :: "nat \<Rightarrow> world \<Rightarrow> world" where
  "os_Exit code w = w\<lparr>status := Exited code\<rparr>"

subsection \<open>Print, Error, Exit (lines 47-68)\<close>

definition Error :: "'a env \<Rightarrow> string \<Rightarrow> 'a list \<Rightarrow> world \<Rightarrow> world" where
  "Error E format args w =
     (let line = (if length args > 0 then Sprintf E format args else format)
      in write_ErrorWriter E (line @ ''\<newline>'') w)"


definition Exit :: "'a env \<Rightarrow> string \<Rightarrow> 'a list \<Rightarrow> world \<Rightarrow> world" where
  "Exit E format args w = os_Exit 2 (Error E format args w)"

subsection \<open>The panic log (lines 154-228)\<close>

text \<open>
  \<^verbatim>\<open>logPanicToWriter\<close>, statement by statement. The argument is never nil
  (\<^verbatim>\<open>handlePanic\<close> returns before the call for a nil error).
\<close>

definition logPanicToWriter :: "'a env \<Rightarrow> writer \<Rightarrow> error \<Rightarrow> world \<Rightarrow> world" where
  "logPanicToWriter E wr loggedError w0 =
     (let gitV = (case git_Version E of
                    Inl err \<Rightarrow> ''Error getting git version: '' @ Error_msg err
                  | Inr v \<Rightarrow> v);
          w1 = Fprintln wr (VersionDesc E) w0;
          w2 = Fprintln wr gitV w1;
          w3 = Fprintln wr [] w2;
          w4 = Write wr (''$ '' @ filepath_Base (hd (os_Args E))) w3;
          w5 = (if length (os_Args E) > 0
                then Write wr ('' '' @ strings_Join (tl (os_Args E)) '' '') w4
                else w4);
          w6 = Fprintln wr [] w5;
          w7 = Write wr (ErrorBuffer w6) w6;
          w8 = Fprintln wr [] w7;
          w9 = Fprintln wr (Error_msg loggedError) w8;
          w10 = (case loggedError of
                   StackError msg ctx inner stack \<Rightarrow>
                     Write wr stack
                       (fold (\<lambda>(key, val). Write wr (key @ ''='' @ val @ ''\<newline>'')) ctx
                          (Fprintln wr inner w9))
                 | PlainError msg \<Rightarrow> Write wr (errutil_Stack E) w9);
          w11 = Fprintln wr ''\<newline>ENV:'' w10
      in fold (\<lambda>env. Fprintln wr env) (lfs_Environ E) w11)"

text \<open>
  \<^verbatim>\<open>logPanic\<close>. The result is the returned path and the new state. When \<^verbatim>\<open>os.Create\<close>
  fails, the deferred function (lines 175-178) runs after line 184 and before the
  function returns the empty \<^verbatim>\<open>full\<close>. \<^verbatim>\<open>os.Create\<close> makes the file empty; closing the
  file (line 181) does not change its contents.
\<close>

definition logPanic :: "'a env \<Rightarrow> error \<Rightarrow> world \<Rightarrow> string \<times> world" where
  "logPanic E loggedError w =
     (let name = time_Now_Format E;
          full = filepath_Join E (LocalLogDir E) (name @ ''.log'')
      in case os_MkdirAll E (LocalLogDir E) of
           Some err \<Rightarrow>
             (let w1 = Write Stderr (''Unable to log panic to '' @ LocalLogDir E @ '': ''
                                      @ Error_msg err @ ''\<newline>\<newline>'') w
              in ([], logPanicToWriter E Stderr loggedError w1))
         | None \<Rightarrow>
             (case os_Create E full of
                Some err \<Rightarrow>
                  (let filename = full;
                       w1 = logPanicToWriter E Stderr loggedError w;
                       w2 = Write Stderr (''Unable to log panic to '' @ filename
                                           @ ''\<newline>\<newline>'') w1;
                       w3 = logPanicToWriter E Stderr err w2
                   in ([], w3))
              | None \<Rightarrow>
                  (let w1 = w\<lparr>files := (files w)(full \<mapsto> [])\<rparr>
                   in (full, logPanicToWriter E (File full) loggedError w1))))"

definition handlePanic :: "'a env \<Rightarrow> error option \<Rightarrow> world \<Rightarrow> string \<times> world" where
  "handlePanic E err w =
     (case err of
        None \<Rightarrow> ([], w)
      | Some e \<Rightarrow> logPanic E e w)"

subsection \<open>LoggedError, Panic, ExitWithError (lines 70-106)\<close>

definition LoggedError :: "'a env \<Rightarrow> error option \<Rightarrow> string \<Rightarrow> 'a list \<Rightarrow> world \<Rightarrow> world" where
  "LoggedError E err format args w =
     (let w1 = Error E format args w;
          (file, w2) = handlePanic E err w1
      in if length file > 0
         then Write Stderr (''\<newline>Errors logged to '' @ file
                @ ''\<newline>Use `git lfs logs last` to view the log.\<newline>'') w2
         else w2)"

definition Panic :: "'a env \<Rightarrow> error option \<Rightarrow> string \<Rightarrow> 'a list \<Rightarrow> world \<Rightarrow> world" where
  "Panic E err format args w = os_Exit 2 (LoggedError E err format args w)"

text \<open>
  \<^verbatim>\<open>ExitWithError\<close>. A nil argument reaches \<^verbatim>\<open>err.Error()\<close> on a nil interface, a run-time
  panic; on the second branch that happens after the inner error, if \<^verbatim>\<open>errutil\<close> finds
  one, has been printed. What the Go run time prints when it panics is not modelled.
\<close>

definition ExitWithError :: "'a env \<Rightarrow> error option \<Rightarrow> world \<Rightarrow> world" where
  "ExitWithError E err w =
     (if Debugging E \<or> IsFatalError E err
      then (case err of
              None \<Rightarrow> w\<lparr>status := RuntimePanic\<rparr>
            | Some e \<Rightarrow> Panic E err (Error_msg e) [] w)
      else
        (let w1 = (case GetInnerError E err of
                     Some inner \<Rightarrow> Error E (Error_msg inner) [] w
                   | None \<Rightarrow> w)
         in case err of
              None \<Rightarrow> w1\<lparr>status := RuntimePanic\<rparr>
            | Some e \<Rightarrow> Exit E (Error_msg e) [] w1))"

subsection \<open>Sequences of Print and Error calls\<close>






text \<open>
  What \<open>ErrorBuffer\<close> receives of a write of \<open>p\<close> through \<open>OutputWriter\<close> or
  \<open>ErrorWriter\<close> when the real stream has already been passed \<open>sofar\<close>: all of \<open>p\<close> if
  the real stream takes all of it without error, and nothing otherwise.
\<close>

definition OutputWriter_buffered :: "'a env \<Rightarrow> string \<Rightarrow> string \<Rightarrow> string" where
  "OutputWriter_buffered E sofar p =
     (case os_Stdout_Write E sofar p of
        (n, err) \<Rightarrow> if err = None \<and> n = length p then p else [])"

definition ErrorWriter_buffered :: "'a env \<Rightarrow> string \<Rightarrow> string \<Rightarrow> string" where
  "ErrorWriter_buffered E sofar p =
     (case os_Stderr_Write E sofar p of
        (n, err) \<Rightarrow> if err = None \<and> n = length p then p else [])"


subsection \<open>The text of a panic log\<close>

text \<open>
  The bytes that one run of \<^verbatim>\<open>logPanicToWriter\<close> hands to its writer, as one string, for
  the transcript \<open>buf\<close> found in \<open>ErrorBuffer\<close>. The lemma \<open>logPanicToWriter_body\<close> below
  proves that the statements of the function write exactly this.
\<close>

definition git_version_line :: "'a env \<Rightarrow> string" where
  "git_version_line E =
     (case git_Version E of
        Inl err \<Rightarrow> ''Error getting git version: '' @ Error_msg err
      | Inr v \<Rightarrow> v)"

definition command_line :: "'a env \<Rightarrow> string" where
  "command_line E =
     ''$ '' @ filepath_Base (os_Arg0 E) @ '' '' @ strings_Join (os_ArgsRest E) '' ''"

fun error_details :: "'a env \<Rightarrow> error \<Rightarrow> string" where
  "error_details E (PlainError msg) = errutil_Stack E"
| "error_details E (StackError msg ctx inner stack) =
     inner @ ''\<newline>''
     @ concat (map (\<lambda>(key, val). key @ ''='' @ val @ ''\<newline>'') ctx)
     @ stack"

definition log_body :: "'a env \<Rightarrow> string \<Rightarrow> error \<Rightarrow> string" where
  "log_body E buf loggedError =
     VersionDesc E @ ''\<newline>''
     @ git_version_line E @ ''\<newline>''
     @ ''\<newline>''
     @ command_line E @ ''\<newline>''
     @ buf
     @ ''\<newline>''
     @ Error_msg loggedError @ ''\<newline>''
     @ error_details E loggedError
     @ ''\<newline>ENV:\<newline>''
     @ concat (map (\<lambda>env. env @ ''\<newline>'') (lfs_Environ E))"

subsection \<open>Names for the path and the notices of the panic log\<close>

text \<open>The value of \<^verbatim>\<open>full\<close> at line 167, and the three messages that lines 97, 171 and
  176 format with \<^verbatim>\<open>%s\<close>.\<close>

definition log_path :: "'a env \<Rightarrow> string" where
  "log_path E = filepath_Join E (LocalLogDir E) (time_Now_Format E @ ''.log'')"

definition mkdir_warning :: "'a env \<Rightarrow> error \<Rightarrow> string" where
  "mkdir_warning E err =
     ''Unable to log panic to '' @ LocalLogDir E @ '': '' @ Error_msg err @ ''\<newline>\<newline>''"

definition create_warning :: "string \<Rightarrow> string" where
  "create_warning filename = ''Unable to log panic to '' @ filename @ ''\<newline>\<newline>''"

definition logged_notice :: "string \<Rightarrow> string" where
  "logged_notice file =
     ''\<newline>Errors logged to '' @ file
     @ ''\<newline>Use `git lfs logs last` to view the log.\<newline>''"

subsection \<open>A concrete run\<close>

text \<open>
  The scenario of the specification: version \<^verbatim>\<open>1.0.0\<close>, git version \<^verbatim>\<open>git version 2.40\<close>,
  arguments \<^verbatim>\<open>git-lfs push origin\<close>, and a transcript holding \<^verbatim>\<open>uploading file\<close>. The error
  \<^verbatim>\<open>network unreachable\<close> is fatal; the error \<^verbatim>\<open>push failed\<close> is not, and wraps
  \<^verbatim>\<open>connection reset\<close>. The log directory and the log file can be created, and the
  standard streams take every write in full. Its \<open>Sprintf\<close> returns the format string,
  as \<^verbatim>\<open>fmt.Sprintf\<close> does for a format without per-cent sign and without operands; no
  call evaluated on this environment applies it to anything else.
\<close>

definition scenario_env :: "unit env" where
  "scenario_env =
     \<lparr> Debugging = False,
       VersionDesc = ''1.0.0'',
       LocalLogDir = ''.git/lfs/objects/logs'',
       git_Version = Inr ''git version 2.40'',
       os_Arg0 = ''git-lfs'',
       os_ArgsRest = [''push'', ''origin''],
       lfs_Environ = [''HOME=/root''],
       errutil_Stack = ''goroutine 1 [running]:\<newline>'',
       IsFatalError = (\<lambda>err. err = Some (PlainError ''network unreachable'')),
       GetInnerError = (\<lambda>err. if err = Some (PlainError ''push failed'')
                               then Some (PlainError ''connection reset'') else None),
       Sprintf = (\<lambda>format args. format),
       time_Now_Format = ''20160102T150405.5'',
       filepath_Join = (\<lambda>dir name. dir @ ''/'' @ name),
       os_MkdirAll = (\<lambda>path. None),
       os_Create = (\<lambda>path. None),
       os_Stdout_Write = (\<lambda>sofar p. (length p, None)),
       os_Stderr_Write = (\<lambda>sofar p. (length p, None)) \<rparr>"

definition scenario_world :: world where
  "scenario_world =
     \<lparr> stdout = ''uploading file\<newline>'',
       stderr = [],
       ErrorBuffer = ''uploading file\<newline>'',
       files = Map.empty,
       status = Running \<rparr>"


text \<open>The same run where the log directory cannot be created, where the log file
  cannot be created, with the debug flag set, and with standard output closed.\<close>

definition no_directory_env :: "unit env" where
  "no_directory_env =
     scenario_env\<lparr>os_MkdirAll := (\<lambda>path. Some (PlainError ''mkdir .git/lfs: not a directory''))\<rparr>"

definition no_file_env :: "unit env" where
  "no_file_env =
     scenario_env\<lparr>os_Create := (\<lambda>path. Some (PlainError ''open: permission denied''))\<rparr>"

definition debugging_env :: "unit env" where
  "debugging_env = scenario_env\<lparr>Debugging := True\<rparr>"


subsection \<open>The claims of the specification that the code does not meet, as stated\<close>

text \<open>
  The log text in the order the specification gives: as \<open>log_body\<close>, with a blank line
  between the command line and the transcript.
\<close>

definition spec_log_body :: "'a env \<Rightarrow> string \<Rightarrow> error \<Rightarrow> string" where
  "spec_log_body E buf loggedError =
     VersionDesc E @ ''\<newline>''
     @ git_version_line E @ ''\<newline>''
     @ ''\<newline>''
     @ command_line E @ ''\<newline>''
     @ ''\<newline>''
     @ buf
     @ ''\<newline>''
     @ Error_msg loggedError @ ''\<newline>''
     @ error_details E loggedError
     @ ''\<newline>ENV:\<newline>''
     @ concat (map (\<lambda>env. env @ ''\<newline>'') (lfs_Environ E))"

text \<open>
  The fallback of the specification when the log file cannot be created, for a call of
  \<^verbatim>\<open>logPanic\<close> in state \<open>w\<close> with result \<open>r\<close>: the returned path is empty, no file
  changes, and standard error receives the warning that names the file and the log text
  of the logged error, once, in either order, and nothing else.
\<close>

definition spec_written_once :: "'a env \<Rightarrow> error \<Rightarrow> world \<Rightarrow> string \<times> world \<Rightarrow> bool" where
  "spec_written_once E loggedError w r =
     (let body = log_body E (ErrorBuffer w) loggedError;
          warning = create_warning (log_path E)
      in fst r = [] \<and> files (snd r) = files w
         \<and> (stderr (snd r) = stderr w @ warning @ body
            \<or> stderr (snd r) = stderr w @ body @ warning))"

text \<open>
  Exactly one log artifact after \<^verbatim>\<open>ExitWithError\<close> from state \<open>w\<close> to state \<open>w'\<close>: after
  the message line, either the log file is written and standard error only names
  it, or no file changes and standard error receives one warning and the log text once.
\<close>

definition spec_one_log_artifact :: "'a env \<Rightarrow> error \<Rightarrow> world \<Rightarrow> world \<Rightarrow> bool" where
  "spec_one_log_artifact E e w w' =
     (let line = Error_msg e @ ''\<newline>'';
          body = log_body E (ErrorBuffer w @ line) e;
          warning = (case os_MkdirAll E (LocalLogDir E) of
                       Some err \<Rightarrow> mkdir_warning E err
                     | None \<Rightarrow> create_warning (log_path E))
      in (files w' = (files w)(log_path E \<mapsto> body)
          \<and> stderr w' = stderr w @ line @ logged_notice (log_path E))
         \<or> (files w' = files w
            \<and> (stderr w' = stderr w @ line @ warning @ body
               \<or> stderr w' = stderr w @ line @ body @ warning)))"

section \<open>Properties\<close>

subsection \<open>Writers\<close>

lemma Write_Write: "Write wr b (Write wr a w) = Write wr (a @ b) w"
  by (cases wr) (simp_all split: option.splits)

lemma ErrorBuffer_Write: "ErrorBuffer (Write wr s w) = ErrorBuffer w"
  by (cases wr) simp_all

lemma stdout_Write: "stdout (Write wr s w) = stdout w"
  by (cases wr) simp_all

lemma status_Write: "status (Write wr s w) = status w"
  by (cases wr) simp_all

lemma fold_Write:
  "fold (\<lambda>x. Write wr (f x)) xs (Write wr a w) = Write wr (a @ concat (map f xs)) w"
  by (induction xs arbitrary: a) (simp_all add: Write_Write)

lemma fold_Write_pairs:
  "fold (\<lambda>(k, v). Write wr (g k v)) xs (Write wr a w)
     = Write wr (a @ concat (map (\<lambda>(k, v). g k v) xs)) w"
  by (induction xs arbitrary: a) (simp_all add: Write_Write split: prod.splits)

lemma fold_Fprintln:
  "fold (Fprintln wr) xs (Write wr a w)
     = Write wr (a @ concat (map (\<lambda>x. x @ ''\<newline>'') xs)) w"
  by (induction xs arbitrary: a) (simp_all add: Write_Write Fprintln_def)

lemma logPanicToWriter_body:
  "logPanicToWriter E wr loggedError w = Write wr (log_body E (ErrorBuffer w) loggedError) w"
proof (cases loggedError)
  case (PlainError msg)
  then show ?thesis
    by (simp add: logPanicToWriter_def log_body_def Fprintln_def os_Args_def
        git_version_line_def command_line_def Write_Write ErrorBuffer_Write fold_Fprintln)
next
  case (StackError msg ctx inner stack)
  then show ?thesis
    by (simp add: logPanicToWriter_def log_body_def Fprintln_def os_Args_def
        git_version_line_def command_line_def Write_Write ErrorBuffer_Write fold_Fprintln
        fold_Write_pairs)
qed

subsection \<open>What logPanic does in each of its three cases\<close>

lemma logPanic_MkdirAll_fails:
  assumes "os_MkdirAll E (LocalLogDir E) = Some err"
  shows "logPanic E loggedError w =
           ([], w\<lparr>stderr := stderr w @ mkdir_warning E err
                               @ log_body E (ErrorBuffer w) loggedError\<rparr>)"
  using assms
  by (simp add: logPanic_def Let_def logPanicToWriter_body mkdir_warning_def)

lemma logPanic_Create_fails:
  assumes "os_MkdirAll E (LocalLogDir E) = None"
    and "os_Create E (log_path E) = Some cerr"
  shows "logPanic E loggedError w =
           ([], w\<lparr>stderr := stderr w @ log_body E (ErrorBuffer w) loggedError
                               @ create_warning (log_path E)
                               @ log_body E (ErrorBuffer w) cerr\<rparr>)"
  using assms
  by (simp add: logPanic_def Let_def logPanicToWriter_body create_warning_def log_path_def)

lemma logPanic_file_written:
  assumes "os_MkdirAll E (LocalLogDir E) = None"
    and "os_Create E (log_path E) = None"
  shows "logPanic E loggedError w =
           (log_path E,
            w\<lparr>files := (files w)(log_path E \<mapsto> log_body E (ErrorBuffer w) loggedError)\<rparr>)"
  using assms
  by (simp add: logPanic_def Let_def logPanicToWriter_body log_path_def)

lemma logPanic_keeps:
  "status (snd (logPanic E loggedError w)) = status w"
  "ErrorBuffer (snd (logPanic E loggedError w)) = ErrorBuffer w"
  "stdout (snd (logPanic E loggedError w)) = stdout w"
  "prefix (stderr w) (stderr (snd (logPanic E loggedError w)))"
proof -
  consider (mk) err where "os_MkdirAll E (LocalLogDir E) = Some err"
    | (cr) cerr where "os_MkdirAll E (LocalLogDir E) = None" "os_Create E (log_path E) = Some cerr"
    | (ok) "os_MkdirAll E (LocalLogDir E) = None" "os_Create E (log_path E) = None"
    by (cases "os_MkdirAll E (LocalLogDir E)"; cases "os_Create E (log_path E)") auto
  then have "status (snd (logPanic E loggedError w)) = status w
      \<and> ErrorBuffer (snd (logPanic E loggedError w)) = ErrorBuffer w
      \<and> stdout (snd (logPanic E loggedError w)) = stdout w
      \<and> prefix (stderr w) (stderr (snd (logPanic E loggedError w)))"
  proof cases
    case mk
    then show ?thesis by (simp add: logPanic_MkdirAll_fails)
  next
    case cr
    then show ?thesis by (simp add: logPanic_Create_fails)
  next
    case ok
    then show ?thesis by (simp add: logPanic_file_written)
  qed
  then show "status (snd (logPanic E loggedError w)) = status w"
    and "ErrorBuffer (snd (logPanic E loggedError w)) = ErrorBuffer w"
    and "stdout (snd (logPanic E loggedError w)) = stdout w"
    and "prefix (stderr w) (stderr (snd (logPanic E loggedError w)))"
    by simp_all
qed

lemma handlePanic_keeps:
  "status (snd (handlePanic E err w)) = status w"
  "ErrorBuffer (snd (handlePanic E err w)) = ErrorBuffer w"
  "prefix (stderr w) (stderr (snd (handlePanic E err w)))"
  by (cases err, simp_all add: handlePanic_def logPanic_keeps)+

lemma write_ErrorWriter_effect:
  "write_ErrorWriter E p w =
     w\<lparr>stderr := stderr w @ p,
       ErrorBuffer := ErrorBuffer w @ ErrorWriter_buffered E (stderr w) p\<rparr>"
  by (simp add: write_ErrorWriter_def ErrorWriter_buffered_def Let_def split: prod.splits)


lemma Error_no_operands:
  "Error E format [] w =
     w\<lparr>stderr := stderr w @ format @ ''\<newline>'',
       ErrorBuffer := ErrorBuffer w
                      @ ErrorWriter_buffered E (stderr w) (format @ ''\<newline>'')\<rparr>"
  by (simp add: Error_def write_ErrorWriter_effect)

lemma status_Error: "status (Error E format args w) = status w"
  by (simp add: Error_def write_ErrorWriter_effect Let_def)

lemma scenario_streams:
  "OutputWriter_buffered scenario_env sofar p = p"
  "ErrorWriter_buffered scenario_env sofar p = p"
  by (simp_all add: OutputWriter_buffered_def ErrorWriter_buffered_def scenario_env_def)

lemma LoggedError_keeps:
  "status (LoggedError E err format args w) = status (Error E format args w)"
  "ErrorBuffer (LoggedError E err format args w) = ErrorBuffer (Error E format args w)"
  "prefix (stderr (Error E format args w)) (stderr (LoggedError E err format args w))"
proof -
  obtain path w2 where h: "handlePanic E err (Error E format args w) = (path, w2)"
    by (cases "handlePanic E err (Error E format args w)")
  have k: "status w2 = status (Error E format args w)"
    "ErrorBuffer w2 = ErrorBuffer (Error E format args w)"
    "prefix (stderr (Error E format args w)) (stderr w2)"
    using handlePanic_keeps [where E=E and err=err and w="Error E format args w"] h by simp_all
  show "status (LoggedError E err format args w) = status (Error E format args w)"
    using h k by (simp add: LoggedError_def)
  show "ErrorBuffer (LoggedError E err format args w) = ErrorBuffer (Error E format args w)"
    using h k by (simp add: LoggedError_def)
  show "prefix (stderr (Error E format args w)) (stderr (LoggedError E err format args w))"
    using h k by (auto simp: LoggedError_def intro: prefix_order.trans)
qed

subsection \<open>The transcript\<close>







subsection \<open>LoggedError does not exit\<close>

text \<open>
  Claim C8. \<^verbatim>\<open>LoggedError\<close> never terminates the process: for every error (nil or not),
  format, operands and state, the process status after the call is the status before
  it. For a nil error the call does exactly what \<^verbatim>\<open>Error\<close> does on the same message:
  it prints the line and logs nothing.
\<close>

theorem LoggedError_never_exits:
  "status (LoggedError E err format args w) = status w
   \<and> LoggedError E None format args w = Error E format args w"
  by (simp add: LoggedError_keeps status_Error)
    (simp add: LoggedError_def handlePanic_def)

subsection \<open>Messages without operands are printed verbatim\<close>



subsection \<open>The layout of the log text\<close>

lemmas scenario_defs = scenario_env_def scenario_world_def

text \<open>
  Claim C3, as stated, fails: the specification puts a blank line between the command
  line and the transcript. In the scenario of the specification the line after
  \<^verbatim>\<open>$ git-lfs push origin\<close> is \<^verbatim>\<open>uploading file\<close>: line 205 only ends the command line.
\<close>

theorem log_layout_scenario_counterexample:
  "stderr (logPanicToWriter scenario_env Stderr (PlainError ''network unreachable'')
            scenario_world)
     = ''1.0.0\<newline>git version 2.40\<newline>\<newline>$ git-lfs push origin\<newline>uploading file\<newline>\<newline>network unreachable\<newline>goroutine 1 [running]:\<newline>\<newline>ENV:\<newline>HOME=/root\<newline>''
   \<and> stderr (logPanicToWriter scenario_env Stderr (PlainError ''network unreachable'')
              scenario_world)
     \<noteq> spec_log_body scenario_env (ErrorBuffer scenario_world)
         (PlainError ''network unreachable'')"
  by (simp add: logPanicToWriter_body log_body_def spec_log_body_def scenario_defs
      git_version_line_def command_line_def filepath_Base_def)

text \<open>
  Claim C3, amended. For every non-nil error, \<^verbatim>\<open>logPanicToWriter\<close> hands its writer, in
  this order: the version descriptor line; the git version line, or
  \<^verbatim>\<open>Error getting git version: \<close> and the error of the lookup; a blank line; the command
  line, which is \<^verbatim>\<open>$ \<close>, the base name of the program, a space and the other arguments
  joined by spaces; directly after it the raw transcript; a newline; the message of the
  error; then, for an error with the diagnostic capability, the inner description, one
  \<^verbatim>\<open>key=value\<close> line for each pair of the context and the raw stack bytes, and for any
  other error the generic stack; then a newline and the line \<^verbatim>\<open>ENV:\<close>; then one line for
  each environment variable. A context holding \<^verbatim>\<open>retry\<close> with value \<^verbatim>\<open>3\<close> gives the line
  \<^verbatim>\<open>retry=3\<close>.
\<close>

theorem logPanicToWriter_layout:
  "logPanicToWriter E wr loggedError w =
     Write wr
       (VersionDesc E @ ''\<newline>''
        @ (case git_Version E of
             Inl err \<Rightarrow> ''Error getting git version: '' @ Error_msg err
           | Inr v \<Rightarrow> v) @ ''\<newline>''
        @ ''\<newline>''
        @ ''$ '' @ filepath_Base (os_Arg0 E) @ '' '' @ strings_Join (os_ArgsRest E) '' ''
        @ ''\<newline>''
        @ ErrorBuffer w
        @ ''\<newline>''
        @ Error_msg loggedError @ ''\<newline>''
        @ (case loggedError of
             PlainError msg \<Rightarrow> errutil_Stack E
           | StackError msg ctx inner stack \<Rightarrow>
               inner @ ''\<newline>''
               @ concat (map (\<lambda>(key, val). key @ ''='' @ val @ ''\<newline>'') ctx)
               @ stack)
        @ ''\<newline>ENV:\<newline>''
        @ concat (map (\<lambda>env. env @ ''\<newline>'') (lfs_Environ E))) w
   \<and> logPanicToWriter E wr (StackError msg [(''retry'', ''3'')] inner stack) w =
     Write wr
       (VersionDesc E @ ''\<newline>'' @ git_version_line E @ ''\<newline>'' @ ''\<newline>''
        @ command_line E @ ''\<newline>'' @ ErrorBuffer w @ ''\<newline>''
        @ msg @ ''\<newline>''
        @ inner @ ''\<newline>''
        @ ''retry=3\<newline>''
        @ stack
        @ ''\<newline>ENV:\<newline>''
        @ concat (map (\<lambda>env. env @ ''\<newline>'') (lfs_Environ E))) w"
  by (cases loggedError)
    (simp_all add: logPanicToWriter_body log_body_def git_version_line_def command_line_def)

subsection \<open>The log directory cannot be created\<close>

text \<open>
  Claim C4. If creating the log directory fails, \<^verbatim>\<open>logPanic\<close> returns the empty path and
  changes nothing but standard error, which receives one warning that names the
  directory and the failure, and then the whole log text: version, git version, command
  line, transcript, message of the error, stack or context, and environment.
\<close>

theorem logPanic_directory_failure:
  assumes "os_MkdirAll E (LocalLogDir E) = Some err"
  shows "logPanic E loggedError w =
           ([],
            w\<lparr>stderr := stderr w
               @ ''Unable to log panic to '' @ LocalLogDir E @ '': '' @ Error_msg err
               @ ''\<newline>\<newline>''
               @ VersionDesc E @ ''\<newline>''
               @ git_version_line E @ ''\<newline>''
               @ ''\<newline>''
               @ command_line E @ ''\<newline>''
               @ ErrorBuffer w
               @ ''\<newline>''
               @ Error_msg loggedError @ ''\<newline>''
               @ error_details E loggedError
               @ ''\<newline>ENV:\<newline>''
               @ concat (map (\<lambda>env. env @ ''\<newline>'') (lfs_Environ E))\<rparr>)"
  using assms
  by (simp add: logPanic_MkdirAll_fails mkdir_warning_def log_body_def)

theorem logPanic_directory_failure_witness:
  "os_MkdirAll no_directory_env (LocalLogDir no_directory_env)
     = Some (PlainError ''mkdir .git/lfs: not a directory'')
   \<and> logPanic no_directory_env (PlainError ''network unreachable'') scenario_world =
       ([],
        scenario_world\<lparr>stderr :=
          ''Unable to log panic to .git/lfs/objects/logs: mkdir .git/lfs: not a directory\<newline>\<newline>1.0.0\<newline>git version 2.40\<newline>\<newline>$ git-lfs push origin\<newline>uploading file\<newline>\<newline>network unreachable\<newline>goroutine 1 [running]:\<newline>\<newline>ENV:\<newline>HOME=/root\<newline>''\<rparr>)"
proof -
  have h: "os_MkdirAll no_directory_env (LocalLogDir no_directory_env)
             = Some (PlainError ''mkdir .git/lfs: not a directory'')"
    by (simp add: scenario_defs no_directory_env_def)
  show ?thesis
    using h logPanic_directory_failure [OF h, of "PlainError ''network unreachable''"
        scenario_world]
    by (simp add: scenario_defs no_directory_env_def git_version_line_def command_line_def
        filepath_Base_def)
qed

subsection \<open>The log file cannot be created\<close>

text \<open>
  Claim C5, as stated, fails: when the file cannot be created, standard error does not
  receive the warning and one log text only. After the log text of the logged error
  and the warning, the deferred function of lines 175-178 writes a second log text, for
  the error of \<^verbatim>\<open>os.Create\<close>, which repeats the version, the command line, the transcript
  and the environment.
\<close>

theorem logPanic_create_failure_counterexample:
  "stderr (snd (logPanic no_file_env (PlainError ''network unreachable'') scenario_world))
     = ''1.0.0\<newline>git version 2.40\<newline>\<newline>$ git-lfs push origin\<newline>uploading file\<newline>\<newline>network unreachable\<newline>goroutine 1 [running]:\<newline>\<newline>ENV:\<newline>HOME=/root\<newline>Unable to log panic to .git/lfs/objects/logs/20160102T150405.5.log\<newline>\<newline>1.0.0\<newline>git version 2.40\<newline>\<newline>$ git-lfs push origin\<newline>uploading file\<newline>\<newline>open: permission denied\<newline>goroutine 1 [running]:\<newline>\<newline>ENV:\<newline>HOME=/root\<newline>''
   \<and> \<not> spec_written_once no_file_env (PlainError ''network unreachable'') scenario_world
         (logPanic no_file_env (PlainError ''network unreachable'') scenario_world)"
proof -
  have m: "os_MkdirAll no_file_env (LocalLogDir no_file_env) = None"
    by (simp add: scenario_defs no_file_env_def)
  have c: "os_Create no_file_env (log_path no_file_env)
             = Some (PlainError ''open: permission denied'')"
    by (simp add: scenario_defs no_file_env_def)
  show ?thesis
    unfolding logPanic_Create_fails [OF m c] spec_written_once_def
    by (simp add: log_body_def create_warning_def log_path_def scenario_defs no_file_env_def
        git_version_line_def command_line_def filepath_Base_def)
qed

text \<open>
  Claim C5, amended. If the log directory exists but the log file cannot be created,
  \<^verbatim>\<open>logPanic\<close> returns the empty path and changes nothing but standard error, which
  receives the log text of the logged error (never dropped, never replaced), then a
  warning that names the file that could not be created, and then a second log text
  whose error is the failure of the creation.
\<close>

theorem logPanic_create_failure:
  assumes "os_MkdirAll E (LocalLogDir E) = None"
    and "os_Create E (log_path E) = Some cerr"
  shows "logPanic E loggedError w =
           ([],
            w\<lparr>stderr := stderr w
               @ log_body E (ErrorBuffer w) loggedError
               @ ''Unable to log panic to '' @ log_path E @ ''\<newline>\<newline>''
               @ log_body E (ErrorBuffer w) cerr\<rparr>)"
  using assms
  by (simp add: logPanic_Create_fails create_warning_def)

theorem logPanic_create_failure_witness:
  "os_MkdirAll no_file_env (LocalLogDir no_file_env) = None
   \<and> os_Create no_file_env (log_path no_file_env) = Some (PlainError ''open: permission denied'')
   \<and> logPanic no_file_env (PlainError ''network unreachable'') scenario_world =
       ([],
        scenario_world\<lparr>stderr :=
          ''1.0.0\<newline>git version 2.40\<newline>\<newline>$ git-lfs push origin\<newline>uploading file\<newline>\<newline>network unreachable\<newline>goroutine 1 [running]:\<newline>\<newline>ENV:\<newline>HOME=/root\<newline>''
          @ ''Unable to log panic to .git/lfs/objects/logs/20160102T150405.5.log\<newline>\<newline>''
          @ ''1.0.0\<newline>git version 2.40\<newline>\<newline>$ git-lfs push origin\<newline>uploading file\<newline>\<newline>open: permission denied\<newline>goroutine 1 [running]:\<newline>\<newline>ENV:\<newline>HOME=/root\<newline>''\<rparr>)"
proof -
  have m: "os_MkdirAll no_file_env (LocalLogDir no_file_env) = None"
    by (simp add: scenario_defs no_file_env_def)
  have c: "os_Create no_file_env (log_path no_file_env)
             = Some (PlainError ''open: permission denied'')"
    by (simp add: scenario_defs no_file_env_def)
  show ?thesis
    using m c logPanic_create_failure [OF m c, of "PlainError ''network unreachable''"
        scenario_world]
    by (simp add: log_body_def log_path_def scenario_defs no_file_env_def git_version_line_def
        command_line_def filepath_Base_def)
qed

subsection \<open>LoggedError and the branch of Panic\<close>

lemma LoggedError_file_written:
  assumes "os_MkdirAll E (LocalLogDir E) = None"
    and "os_Create E (log_path E) = None"
  shows "LoggedError E (Some e) format args w =
           (let w1 = Error E format args w;
                w2 = w1\<lparr>files := (files w1)(log_path E \<mapsto> log_body E (ErrorBuffer w1) e)\<rparr>
            in if log_path E \<noteq> [] then Write Stderr (logged_notice (log_path E)) w2 else w2)"
  using assms
  by (simp add: LoggedError_def handlePanic_def logPanic_file_written Let_def
      logged_notice_def)

lemma LoggedError_MkdirAll_fails:
  assumes "os_MkdirAll E (LocalLogDir E) = Some err"
  shows "LoggedError E (Some e) format args w =
           (let w1 = Error E format args w
            in w1\<lparr>stderr := stderr w1 @ mkdir_warning E err
                                @ log_body E (ErrorBuffer w1) e\<rparr>)"
  using assms
  by (simp add: LoggedError_def handlePanic_def logPanic_MkdirAll_fails Let_def)

lemma LoggedError_Create_fails:
  assumes "os_MkdirAll E (LocalLogDir E) = None"
    and "os_Create E (log_path E) = Some cerr"
  shows "LoggedError E (Some e) format args w =
           (let w1 = Error E format args w
            in w1\<lparr>stderr := stderr w1 @ log_body E (ErrorBuffer w1) e
                                @ create_warning (log_path E)
                                @ log_body E (ErrorBuffer w1) cerr\<rparr>)"
  using assms
  by (simp add: LoggedError_def handlePanic_def logPanic_Create_fails Let_def)

lemma ExitWithError_panics:
  assumes "Debugging E \<or> IsFatalError E (Some e)"
  shows "ExitWithError E (Some e) w = os_Exit 2 (LoggedError E (Some e) (Error_msg e) [] w)"
  using assms by (simp add: ExitWithError_def Panic_def)

subsection \<open>ExitWithError on errors that are not fatal\<close>

lemma ExitWithError_recoverable:
  assumes "\<not> Debugging E" and "\<not> IsFatalError E (Some e)"
  shows "ExitWithError E (Some e) w =
           Exit E (Error_msg e) []
             (case GetInnerError E (Some e) of
                Some inner \<Rightarrow> Error E (Error_msg inner) [] w
              | None \<Rightarrow> w)"
  using assms by (simp add: ExitWithError_def)

text \<open>
  Claim C6. With the debug flag unset, for an error that is not fatal and has an inner
  cause, \<^verbatim>\<open>ExitWithError\<close> prints the message of the inner cause and then the message of
  the error, each on its own line, to standard error, and exits with status 2. The
  transcript receives each of the two lines that standard error took. Nothing else
  changes: no log file is written.
\<close>

theorem ExitWithError_inner_cause:
  assumes "\<not> Debugging E"
    and "\<not> IsFatalError E (Some e)"
    and "GetInnerError E (Some e) = Some inner"
  shows "ExitWithError E (Some e) w =
           w\<lparr>stderr := stderr w @ Error_msg inner @ ''\<newline>'' @ Error_msg e @ ''\<newline>'',
             ErrorBuffer := ErrorBuffer w
               @ ErrorWriter_buffered E (stderr w) (Error_msg inner @ ''\<newline>'')
               @ ErrorWriter_buffered E (stderr w @ Error_msg inner @ ''\<newline>'')
                   (Error_msg e @ ''\<newline>''),
             status := Exited 2\<rparr>"
  using assms
  by (simp add: ExitWithError_recoverable Exit_def os_Exit_def Error_no_operands)

theorem ExitWithError_inner_cause_witness:
  "\<not> Debugging scenario_env
   \<and> \<not> IsFatalError scenario_env (Some (PlainError ''push failed''))
   \<and> GetInnerError scenario_env (Some (PlainError ''push failed''))
       = Some (PlainError ''connection reset'')
   \<and> ExitWithError scenario_env (Some (PlainError ''push failed'')) scenario_world =
       \<lparr> stdout = ''uploading file\<newline>'',
         stderr = ''connection reset\<newline>push failed\<newline>'',
         ErrorBuffer = ''uploading file\<newline>connection reset\<newline>push failed\<newline>'',
         files = Map.empty,
         status = Exited 2 \<rparr>"
proof -
  have d: "\<not> Debugging scenario_env"
    by (simp add: scenario_defs)
  have f: "\<not> IsFatalError scenario_env (Some (PlainError ''push failed''))"
    by (simp add: scenario_defs)
  have i: "GetInnerError scenario_env (Some (PlainError ''push failed''))
             = Some (PlainError ''connection reset'')"
    by (simp add: scenario_defs)
  show ?thesis
    using d f i ExitWithError_inner_cause [OF d f i, of scenario_world]
    by (simp add: scenario_world_def scenario_streams)
qed

text \<open>
  Claim C9, as stated, fails: it does not ask for the debug flag to be unset. With the
  flag set, an error that is not fatal and has no inner cause takes the branch of
  \<^verbatim>\<open>Panic\<close> (line 71), which writes a log file.
\<close>

theorem ExitWithError_debugging_counterexample:
  "\<not> IsFatalError debugging_env (Some (PlainError ''object not found''))
   \<and> GetInnerError debugging_env (Some (PlainError ''object not found'')) = None
   \<and> files scenario_world ''.git/lfs/objects/logs/20160102T150405.5.log'' = None
   \<and> files (ExitWithError debugging_env (Some (PlainError ''object not found''))
              scenario_world) ''.git/lfs/objects/logs/20160102T150405.5.log''
       = Some ''1.0.0\<newline>git version 2.40\<newline>\<newline>$ git-lfs push origin\<newline>uploading file\<newline>object not found\<newline>\<newline>object not found\<newline>goroutine 1 [running]:\<newline>\<newline>ENV:\<newline>HOME=/root\<newline>''
   \<and> files (ExitWithError debugging_env (Some (PlainError ''object not found''))
              scenario_world) \<noteq> files scenario_world"
proof -
  let ?e = "PlainError ''object not found''"
  let ?p = "''.git/lfs/objects/logs/20160102T150405.5.log''"
  have m: "os_MkdirAll debugging_env (LocalLogDir debugging_env) = None"
    by (simp add: scenario_defs debugging_env_def)
  have c: "os_Create debugging_env (log_path debugging_env) = None"
    by (simp add: scenario_defs debugging_env_def)
  have d: "Debugging debugging_env \<or> IsFatalError debugging_env (Some ?e)"
    by (simp add: scenario_defs debugging_env_def)
  have p: "log_path debugging_env = ?p"
    by (simp add: log_path_def scenario_defs debugging_env_def)
  have b: "log_body debugging_env ''uploading file\<newline>object not found\<newline>'' ?e
      = ''1.0.0\<newline>git version 2.40\<newline>\<newline>$ git-lfs push origin\<newline>uploading file\<newline>object not found\<newline>\<newline>object not found\<newline>goroutine 1 [running]:\<newline>\<newline>ENV:\<newline>HOME=/root\<newline>''"
    by (simp add: log_body_def scenario_defs debugging_env_def git_version_line_def
        command_line_def
        filepath_Base_def)
  have x: "files (ExitWithError debugging_env (Some ?e) scenario_world) ?p
       = Some (log_body debugging_env ''uploading file\<newline>object not found\<newline>'' ?e)"
    unfolding ExitWithError_panics [OF d] LoggedError_file_written [OF m c] p
    by (simp add: Let_def os_Exit_def Error_no_operands ErrorWriter_buffered_def
        scenario_defs debugging_env_def)
  have y: "files scenario_world ?p = None"
    by (simp add: scenario_world_def)
  have z: "files (ExitWithError debugging_env (Some ?e) scenario_world) \<noteq> files scenario_world"
  proof
    assume "files (ExitWithError debugging_env (Some ?e) scenario_world) = files scenario_world"
    then have "files (ExitWithError debugging_env (Some ?e) scenario_world) ?p
        = files scenario_world ?p"
      by (rule arg_cong)
    with x y show False by simp
  qed
  have f: "\<not> IsFatalError debugging_env (Some ?e)"
    by (simp add: scenario_defs debugging_env_def)
  have i: "GetInnerError debugging_env (Some ?e) = None"
    by (simp add: scenario_defs debugging_env_def)
  from f i y x z show ?thesis
    unfolding b by (intro conjI)
qed

text \<open>
  Claim C9, amended. With the debug flag unset, for an error that is not fatal and has no
  inner cause, \<^verbatim>\<open>ExitWithError\<close> prints exactly one line, the message of the error, to
  standard error, and exits with status 2. The transcript receives that line if
  standard error took it. Nothing else changes: no log file is written.
\<close>

theorem ExitWithError_plain:
  assumes "\<not> Debugging E"
    and "\<not> IsFatalError E (Some e)"
    and "GetInnerError E (Some e) = None"
  shows "ExitWithError E (Some e) w =
           w\<lparr>stderr := stderr w @ Error_msg e @ ''\<newline>'',
             ErrorBuffer := ErrorBuffer w
               @ ErrorWriter_buffered E (stderr w) (Error_msg e @ ''\<newline>''),
             status := Exited 2\<rparr>"
  using assms
  by (simp add: ExitWithError_recoverable Exit_def os_Exit_def Error_no_operands)

theorem ExitWithError_plain_witness:
  "\<not> Debugging scenario_env
   \<and> \<not> IsFatalError scenario_env (Some (PlainError ''object not found''))
   \<and> GetInnerError scenario_env (Some (PlainError ''object not found'')) = None
   \<and> ExitWithError scenario_env (Some (PlainError ''object not found'')) scenario_world =
       \<lparr> stdout = ''uploading file\<newline>'',
         stderr = ''object not found\<newline>'',
         ErrorBuffer = ''uploading file\<newline>object not found\<newline>'',
         files = Map.empty,
         status = Exited 2 \<rparr>"
proof -
  have d: "\<not> Debugging scenario_env"
    by (simp add: scenario_defs)
  have f: "\<not> IsFatalError scenario_env (Some (PlainError ''object not found''))"
    by (simp add: scenario_defs)
  have i: "GetInnerError scenario_env (Some (PlainError ''object not found'')) = None"
    by (simp add: scenario_defs)
  show ?thesis
    using d f i ExitWithError_plain [OF d f i, of scenario_world]
    by (simp add: scenario_world_def scenario_streams)
qed

subsection \<open>LoggedError writes a log file when it can\<close>

text \<open>
  Claim C7, as stated, fails: not every call of \<^verbatim>\<open>LoggedError\<close> produces a log file and
  reports it. With a nil error \<^verbatim>\<open>handlePanic\<close> returns at once (lines 155-157), and when
  the log directory cannot be created the log text goes to standard error; in both
  cases no file changes and no location is reported.
\<close>

theorem LoggedError_no_file_counterexample:
  "LoggedError scenario_env None ''push failed'' [] scenario_world =
     \<lparr> stdout = ''uploading file\<newline>'',
       stderr = ''push failed\<newline>'',
       ErrorBuffer = ''uploading file\<newline>push failed\<newline>'',
       files = Map.empty,
       status = Running \<rparr>
   \<and> LoggedError no_directory_env (Some (PlainError ''network unreachable'')) ''push failed'' []
       scenario_world =
     \<lparr> stdout = ''uploading file\<newline>'',
       stderr = ''push failed\<newline>Unable to log panic to .git/lfs/objects/logs: mkdir .git/lfs: not a directory\<newline>\<newline>1.0.0\<newline>git version 2.40\<newline>\<newline>$ git-lfs push origin\<newline>uploading file\<newline>push failed\<newline>\<newline>network unreachable\<newline>goroutine 1 [running]:\<newline>\<newline>ENV:\<newline>HOME=/root\<newline>'',
       ErrorBuffer = ''uploading file\<newline>push failed\<newline>'',
       files = Map.empty,
       status = Running \<rparr>"
proof -
  have m: "os_MkdirAll no_directory_env (LocalLogDir no_directory_env)
             = Some (PlainError ''mkdir .git/lfs: not a directory'')"
    by (simp add: scenario_defs no_directory_env_def)
  have a: "LoggedError scenario_env None ''push failed'' [] scenario_world =
     \<lparr> stdout = ''uploading file\<newline>'',
       stderr = ''push failed\<newline>'',
       ErrorBuffer = ''uploading file\<newline>push failed\<newline>'',
       files = Map.empty,
       status = Running \<rparr>"
    by (simp add: LoggedError_def handlePanic_def Error_no_operands scenario_streams
        scenario_world_def)
  have b: "LoggedError no_directory_env (Some (PlainError ''network unreachable''))
       ''push failed'' [] scenario_world =
     \<lparr> stdout = ''uploading file\<newline>'',
       stderr = ''push failed\<newline>Unable to log panic to .git/lfs/objects/logs: mkdir .git/lfs: not a directory\<newline>\<newline>1.0.0\<newline>git version 2.40\<newline>\<newline>$ git-lfs push origin\<newline>uploading file\<newline>push failed\<newline>\<newline>network unreachable\<newline>goroutine 1 [running]:\<newline>\<newline>ENV:\<newline>HOME=/root\<newline>'',
       ErrorBuffer = ''uploading file\<newline>push failed\<newline>'',
       files = Map.empty,
       status = Running \<rparr>"
    unfolding LoggedError_MkdirAll_fails [OF m]
    by (simp add: Let_def Error_no_operands ErrorWriter_buffered_def mkdir_warning_def
        log_body_def scenario_defs
        no_directory_env_def
        git_version_line_def command_line_def filepath_Base_def)
  from a b show ?thesis by (intro conjI)
qed

text \<open>
  Claim C7, amended. For every call with a non-nil error for which the log directory and
  the log file (at a non-empty path) can be created, \<^verbatim>\<open>LoggedError\<close> writes the formatted
  message as an error, then writes the log text, with the transcript that ends in that
  message, to the log file, and then names the file on standard error. The fatal
  predicate plays no part: for every call, replacing it changes nothing.
\<close>

theorem LoggedError_logs_to_file:
  assumes "os_MkdirAll E (LocalLogDir E) = None"
    and "os_Create E (log_path E) = None"
    and "log_path E \<noteq> []"
  shows "LoggedError E (Some e) format args w =
           (let w1 = Error E format args w
            in w1\<lparr>files := (files w1)(log_path E \<mapsto> log_body E (ErrorBuffer w1) e),
                  stderr := stderr w1 @ ''\<newline>Errors logged to '' @ log_path E
                    @ ''\<newline>Use `git lfs logs last` to view the log.\<newline>''\<rparr>)
         \<and> LoggedError (E\<lparr>IsFatalError := fatal\<rparr>) err format args w
             = LoggedError E err format args w"
proof -
  have a: "LoggedError E (Some e) format args w =
           (let w1 = Error E format args w
            in w1\<lparr>files := (files w1)(log_path E \<mapsto> log_body E (ErrorBuffer w1) e),
                  stderr := stderr w1 @ ''\<newline>Errors logged to '' @ log_path E
                    @ ''\<newline>Use `git lfs logs last` to view the log.\<newline>''\<rparr>)"
    using assms
    by (simp add: LoggedError_file_written Let_def logged_notice_def)
  have "log_body (E\<lparr>IsFatalError := fatal\<rparr>) buf x = log_body E buf x" for buf x
    by (cases x) (simp_all add: log_body_def git_version_line_def command_line_def)
  then have b: "logPanicToWriter (E\<lparr>IsFatalError := fatal\<rparr>) wr x v
                  = logPanicToWriter E wr x v" for wr x v
    by (simp add: logPanicToWriter_body)
  have c: "logPanic (E\<lparr>IsFatalError := fatal\<rparr>) x v = logPanic E x v" for x v
    by (simp add: logPanic_def Let_def b split: option.splits)
  have e: "Error (E\<lparr>IsFatalError := fatal\<rparr>) format args v = Error E format args v" for v
    by (simp add: Error_def write_ErrorWriter_effect ErrorWriter_buffered_def)
  have d: "LoggedError (E\<lparr>IsFatalError := fatal\<rparr>) err format args w
             = LoggedError E err format args w"
    by (simp add: LoggedError_def handlePanic_def c e Let_def split: option.splits)
  from a d show ?thesis by (intro conjI)
qed

theorem LoggedError_logs_to_file_witness:
  "os_MkdirAll scenario_env (LocalLogDir scenario_env) = None
   \<and> os_Create scenario_env (log_path scenario_env) = None
   \<and> log_path scenario_env \<noteq> []
   \<and> LoggedError scenario_env (Some (PlainError ''object not found'')) ''push failed'' []
       scenario_world =
     \<lparr> stdout = ''uploading file\<newline>'',
       stderr = ''push failed\<newline>\<newline>Errors logged to .git/lfs/objects/logs/20160102T150405.5.log\<newline>Use `git lfs logs last` to view the log.\<newline>'',
       ErrorBuffer = ''uploading file\<newline>push failed\<newline>'',
       files = [''.git/lfs/objects/logs/20160102T150405.5.log'' \<mapsto>
         ''1.0.0\<newline>git version 2.40\<newline>\<newline>$ git-lfs push origin\<newline>uploading file\<newline>push failed\<newline>\<newline>object not found\<newline>goroutine 1 [running]:\<newline>\<newline>ENV:\<newline>HOME=/root\<newline>''],
       status = Running \<rparr>"
proof -
  have m: "os_MkdirAll scenario_env (LocalLogDir scenario_env) = None"
    by (simp add: scenario_defs)
  have c: "os_Create scenario_env (log_path scenario_env) = None"
    by (simp add: scenario_defs)
  have p: "log_path scenario_env \<noteq> []"
    by (simp add: log_path_def scenario_defs)
  show ?thesis
    using m c p
      LoggedError_logs_to_file [OF m c p, of "PlainError ''object not found''"
        "''push failed''" "[]" scenario_world]
    by (simp add: Let_def Error_no_operands ErrorWriter_buffered_def log_body_def log_path_def
        scenario_defs
        git_version_line_def command_line_def filepath_Base_def)
qed

subsection \<open>ExitWithError on a fatal error\<close>

text \<open>
  Claim C2, as stated, fails: a fatal error does not always leave exactly one log
  artifact. When the log file cannot be created, the process exits with status 2, but
  standard error has received two log texts: that of the fatal error and, after the
  warning, that of the error of \<^verbatim>\<open>os.Create\<close>.
\<close>

theorem ExitWithError_fatal_counterexample:
  "IsFatalError no_file_env (Some (PlainError ''network unreachable''))
   \<and> status (ExitWithError no_file_env (Some (PlainError ''network unreachable''))
               scenario_world) = Exited 2
   \<and> stderr (ExitWithError no_file_env (Some (PlainError ''network unreachable''))
               scenario_world)
       = ''network unreachable\<newline>''
         @ ''1.0.0\<newline>git version 2.40\<newline>\<newline>$ git-lfs push origin\<newline>uploading file\<newline>network unreachable\<newline>\<newline>network unreachable\<newline>goroutine 1 [running]:\<newline>\<newline>ENV:\<newline>HOME=/root\<newline>''
         @ ''Unable to log panic to .git/lfs/objects/logs/20160102T150405.5.log\<newline>\<newline>''
         @ ''1.0.0\<newline>git version 2.40\<newline>\<newline>$ git-lfs push origin\<newline>uploading file\<newline>network unreachable\<newline>\<newline>open: permission denied\<newline>goroutine 1 [running]:\<newline>\<newline>ENV:\<newline>HOME=/root\<newline>''
   \<and> \<not> spec_one_log_artifact no_file_env (PlainError ''network unreachable'') scenario_world
         (ExitWithError no_file_env (Some (PlainError ''network unreachable''))
            scenario_world)"
proof -
  let ?e = "PlainError ''network unreachable''"
  have f: "IsFatalError no_file_env (Some ?e)"
    by (simp add: scenario_defs no_file_env_def)
  then have d: "Debugging no_file_env \<or> IsFatalError no_file_env (Some ?e)"
    by simp
  have m: "os_MkdirAll no_file_env (LocalLogDir no_file_env) = None"
    by (simp add: scenario_defs no_file_env_def)
  have c: "os_Create no_file_env (log_path no_file_env)
             = Some (PlainError ''open: permission denied'')"
    by (simp add: scenario_defs no_file_env_def)
  have r: "ExitWithError no_file_env (Some ?e) scenario_world =
     \<lparr> stdout = ''uploading file\<newline>'',
       stderr = ''network unreachable\<newline>''
         @ ''1.0.0\<newline>git version 2.40\<newline>\<newline>$ git-lfs push origin\<newline>uploading file\<newline>network unreachable\<newline>\<newline>network unreachable\<newline>goroutine 1 [running]:\<newline>\<newline>ENV:\<newline>HOME=/root\<newline>''
         @ ''Unable to log panic to .git/lfs/objects/logs/20160102T150405.5.log\<newline>\<newline>''
         @ ''1.0.0\<newline>git version 2.40\<newline>\<newline>$ git-lfs push origin\<newline>uploading file\<newline>network unreachable\<newline>\<newline>open: permission denied\<newline>goroutine 1 [running]:\<newline>\<newline>ENV:\<newline>HOME=/root\<newline>'',
       ErrorBuffer = ''uploading file\<newline>network unreachable\<newline>'',
       files = Map.empty,
       status = Exited 2 \<rparr>"
    unfolding ExitWithError_panics [OF d] LoggedError_Create_fails [OF m c]
    by (simp add: Let_def os_Exit_def Error_no_operands ErrorWriter_buffered_def
        create_warning_def log_body_def
        log_path_def scenario_defs no_file_env_def git_version_line_def command_line_def
        filepath_Base_def)
  have n: "\<not> spec_one_log_artifact no_file_env ?e scenario_world
         (ExitWithError no_file_env (Some ?e) scenario_world)"
    unfolding r spec_one_log_artifact_def
    by (simp add: Let_def create_warning_def logged_notice_def log_body_def log_path_def
        scenario_defs no_file_env_def git_version_line_def command_line_def filepath_Base_def)
  from f n show ?thesis
    unfolding r by simp
qed

text \<open>
  Claim C2, amended. For any non-nil error satisfying the fatal predicate,
  \<^verbatim>\<open>ExitWithError\<close> prints the message of the error as one line to standard error (the
  transcript receives the line if standard error took it), and the process exits with
  status 2. The log text holds the transcript as it then is. If the log directory and the log file
  can be created, the log text is written to that one file and standard error names the
  file. If the directory cannot be created, standard error receives a warning and the
  log text once, and no file changes. If the file cannot be created, standard error
  receives the log text, a warning, and a second log text for the failure of the
  creation, and no file changes.
\<close>

theorem ExitWithError_fatal:
  assumes "IsFatalError E (Some e)"
  shows "ExitWithError E (Some e) w =
           (let line = Error_msg e @ ''\<newline>'';
                buf = ErrorBuffer w @ ErrorWriter_buffered E (stderr w) line
            in case os_MkdirAll E (LocalLogDir E) of
                 Some err \<Rightarrow>
                   w\<lparr>stderr := stderr w @ line @ mkdir_warning E err @ log_body E buf e,
                     ErrorBuffer := buf,
                     status := Exited 2\<rparr>
               | None \<Rightarrow>
                   (case os_Create E (log_path E) of
                      Some cerr \<Rightarrow>
                        w\<lparr>stderr := stderr w @ line @ log_body E buf e
                                     @ create_warning (log_path E) @ log_body E buf cerr,
                          ErrorBuffer := buf,
                          status := Exited 2\<rparr>
                    | None \<Rightarrow>
                        w\<lparr>stderr := stderr w @ line
                                     @ (if log_path E = [] then []
                                        else logged_notice (log_path E)),
                          ErrorBuffer := buf,
                          files := (files w)(log_path E \<mapsto> log_body E buf e),
                          status := Exited 2\<rparr>))"
proof -
  have d: "Debugging E \<or> IsFatalError E (Some e)"
    using assms by simp
  show ?thesis
  proof (cases "os_MkdirAll E (LocalLogDir E)")
    case (Some err)
    then show ?thesis
      unfolding ExitWithError_panics [OF d] LoggedError_MkdirAll_fails [OF Some]
      by (simp add: Let_def os_Exit_def Error_no_operands)
  next
    case None
    note m = None
    show ?thesis
    proof (cases "os_Create E (log_path E)")
      case (Some cerr)
      then show ?thesis
        unfolding ExitWithError_panics [OF d] LoggedError_Create_fails [OF m Some]
        by (simp add: m Let_def os_Exit_def Error_no_operands)
    next
      case None
      then show ?thesis
        unfolding ExitWithError_panics [OF d] LoggedError_file_written [OF m None]
        by (simp add: m Let_def os_Exit_def Error_no_operands)
    qed
  qed
qed

theorem ExitWithError_fatal_witness:
  "IsFatalError scenario_env (Some (PlainError ''network unreachable''))
   \<and> ExitWithError scenario_env (Some (PlainError ''network unreachable'')) scenario_world =
     \<lparr> stdout = ''uploading file\<newline>'',
       stderr = ''network unreachable\<newline>\<newline>Errors logged to .git/lfs/objects/logs/20160102T150405.5.log\<newline>Use `git lfs logs last` to view the log.\<newline>'',
       ErrorBuffer = ''uploading file\<newline>network unreachable\<newline>'',
       files = [''.git/lfs/objects/logs/20160102T150405.5.log'' \<mapsto>
         ''1.0.0\<newline>git version 2.40\<newline>\<newline>$ git-lfs push origin\<newline>uploading file\<newline>network unreachable\<newline>\<newline>network unreachable\<newline>goroutine 1 [running]:\<newline>\<newline>ENV:\<newline>HOME=/root\<newline>''],
       status = Exited 2 \<rparr>"
proof -
  have f: "IsFatalError scenario_env (Some (PlainError ''network unreachable''))"
    by (simp add: scenario_defs)
  show ?thesis
    using f ExitWithError_fatal [OF f, of scenario_world]
    by (simp add: Let_def logged_notice_def log_body_def log_path_def scenario_defs
        ErrorWriter_buffered_def git_version_line_def command_line_def filepath_Base_def)
qed

end
